theory Spec2Isabelle
  imports Main
begin

section \<open>The React shell page views of \<^verbatim>\<open>sentry/web/frontend/react_page.py\<close>\<close>

text \<open>
  The module defines a mixin (\<^verbatim>\<open>ReactMixin\<close>: \<^verbatim>\<open>get_context\<close>, \<^verbatim>\<open>handle_react\<close>) and four
  view classes whose \<^verbatim>\<open>handle\<close> methods call it. Everything the methods do beyond computing
  a value is a call into Django or into another Sentry module: the CSRF token service, the
  template loader, the project table, the \<^verbatim>\<open>first_event_pending\<close> signal and the messages
  framework. The model makes each of these explicit: the request is an object in a store
  (the context dictionary holds a reference to it, and two collaborators mutate it), every
  collaborator call is appended to a call log in the order the code makes it, and an
  exception raised by a collaborator is a value that stops the method, the effects made
  before it staying in the world.
\<close>

subsection \<open>Data\<close>

type_synonym addr = nat
type_synonym user = string
type_synonym organization = nat

text \<open>An exception raised by a collaborator, by name.\<close>

datatype error = Raised string

text \<open>A row of the project table: primary key, owning organization, slug.\<close>

record project =
  project_pk :: nat
  project_organization :: organization
  project_slug :: string

text \<open>A queued user-facing message (\<^verbatim>\<open>django.contrib.messages\<close>): level and text.\<close>

record message =
  message_level :: nat
  message_text :: string

text \<open>
  The request object, with the attributes the module touches: \<^verbatim>\<open>path\<close>, \<^verbatim>\<open>GET\<close> (the parsed
  query string, one pair per \<^verbatim>\<open>key=value\<close> in order), \<^verbatim>\<open>user\<close>, \<^verbatim>\<open>META\<close> (where the CSRF
  service keeps its state) and the message queue \<^verbatim>\<open>_messages\<close>.
\<close>

record request =
  path :: string
  GET :: "(string \<times> string) list"
  user :: user
  META :: "(string \<times> string) list"
  messages :: "message list"

text \<open>The four view classes; an instance is the \<^verbatim>\<open>sender\<close> of a signal.\<close>

datatype view = ReactPageView | GenericReactPageView | DemoReactPageView | GenericDemoReactPageView

text \<open>The keyword arguments of one \<^verbatim>\<open>first_event_pending.send\<close>.\<close>

record signal =
  signal_project :: "project option"
  signal_user :: user
  signal_sender :: view

text \<open>A value of the template context: a boolean, a string or a reference to a request.\<close>

datatype ctx_value = VBool bool | VStr string | VRef addr

type_synonym template_context = "string \<rightharpoonup> ctx_value"

record response =
  status_code :: nat
  headers :: "string \<rightharpoonup> string"
  content :: string

text \<open>One entry of the call log per call into a collaborator.\<close>

datatype call =
    Get_csrf_token addr
  | Render_to_string string template_context
  | Send signal
  | Add_message addr message

text \<open>
  The world a view runs in: the store of request objects, the project table (rows in
  primary-key order) and the log of collaborator calls.
\<close>

record world =
  store :: "addr \<Rightarrow> request"
  Project_objects :: "project list"
  calls :: "call list"

text \<open>
  What the module takes from its surroundings and does not define: the setting
  \<^verbatim>\<open>settings.CSRF_COOKIE_NAME\<close>; the CSRF token service, which reads and writes
  \<^verbatim>\<open>request.META\<close> and returns a token or raises; the template engine, which reads the
  template name, the context and the objects the context refers to, and returns the
  rendered string or raises.
\<close>

record env =
  CSRF_COOKIE_NAME :: string
  csrf_service :: "(string \<times> string) list \<Rightarrow> (error + string) \<times> (string \<times> string) list"
  template_engine :: "string \<Rightarrow> template_context \<Rightarrow> (addr \<Rightarrow> request) \<Rightarrow> error + string"

subsection \<open>Library operations the module calls\<close>

text \<open>\<^verbatim>\<open>str.startswith\<close>.\<close>

definition startswith :: "string \<Rightarrow> string \<Rightarrow> bool" where
  "startswith s p = (take (length p) s = p)"

text \<open>
  \<^verbatim>\<open>QueryDict.get(key)\<close>: the last value given for the key, \<^verbatim>\<open>None\<close> when the key does
  not occur.
\<close>

definition QueryDict_get :: "(string \<times> string) list \<Rightarrow> string \<Rightarrow> string option" where
  "QueryDict_get q k =
     (case filter (\<lambda>kv. fst kv = k) q of
        [] \<Rightarrow> None
      | kv # kvs \<Rightarrow> Some (snd (last (kv # kvs))))"

text \<open>Python's truth value of \<^verbatim>\<open>None\<close> or a string: only a non-empty string is true.\<close>

definition truthy :: "string option \<Rightarrow> bool" where
  "truthy v = (case v of None \<Rightarrow> False | Some s \<Rightarrow> s \<noteq> [])"

text \<open>
  \<^verbatim>\<open>Project.objects.filter(organization=..., slug=...).first()\<close>: the first matching row
  in primary-key order, \<^verbatim>\<open>None\<close> when no row matches.
\<close>

definition filter_first :: "project list \<Rightarrow> organization \<Rightarrow> string \<Rightarrow> project option" where
  "filter_first rows org slug =
     (case filter (\<lambda>p. project_organization p = org \<and> project_slug p = slug) rows of
        [] \<Rightarrow> None
      | p # _ \<Rightarrow> Some p)"

text \<open>\<^verbatim>\<open>first_event_pending.send(project=..., user=..., sender=...)\<close>.\<close>

definition send :: "project option \<Rightarrow> user \<Rightarrow> view \<Rightarrow> world \<Rightarrow> world" where
  "send p u v w =
     w\<lparr>calls := calls w @ [Send \<lparr>signal_project = p, signal_user = u, signal_sender = v\<rparr>]\<rparr>"

text \<open>\<^verbatim>\<open>messages.WARNING\<close> and \<^verbatim>\<open>messages.add_message(request, level, message)\<close>.\<close>

definition WARNING :: nat where
  "WARNING = 30"

definition add_message :: "addr \<Rightarrow> nat \<Rightarrow> string \<Rightarrow> world \<Rightarrow> world" where
  "add_message request lvl msg w =
     (let m = \<lparr>message_level = lvl, message_text = msg\<rparr>;
          r = store w request
      in w\<lparr>store := (store w)(request := r\<lparr>messages := messages r @ [m]\<rparr>),
            calls := calls w @ [Add_message request m]\<rparr>)"

text \<open>
  \<^verbatim>\<open>get_csrf_token(request)\<close>: the token service runs on \<^verbatim>\<open>request.META\<close>; what it
  leaves there stays, whether it returns or raises.
\<close>

definition get_csrf_token :: "env \<Rightarrow> addr \<Rightarrow> world \<Rightarrow> (error + string) \<times> world" where
  "get_csrf_token e request w =
     (let r = store w request;
          (res, meta) = csrf_service e (META r)
      in (res, w\<lparr>store := (store w)(request := r\<lparr>META := meta\<rparr>),
                  calls := calls w @ [Get_csrf_token request]\<rparr>))"

text \<open>\<^verbatim>\<open>loader.render_to_string(name, context)\<close>.\<close>

definition render_to_string :: "env \<Rightarrow> string \<Rightarrow> template_context \<Rightarrow> world \<Rightarrow> (error + string) \<times> world" where
  "render_to_string e name ctx w =
     (template_engine e name ctx (store w), w\<lparr>calls := calls w @ [Render_to_string name ctx]\<rparr>)"

text \<open>
  \<^verbatim>\<open>HttpResponse(content)\<close>: status 200 and Django's default content type; and
  \<^verbatim>\<open>response[header] = value\<close>.
\<close>

definition HttpResponse :: "string \<Rightarrow> response" where
  "HttpResponse c =
     \<lparr>status_code = 200,
      headers = [''Content-Type'' \<mapsto> ''text/html; charset=utf-8''],
      content = c\<rparr>"

definition setitem :: "response \<Rightarrow> string \<Rightarrow> string \<Rightarrow> response" where
  "setitem r k v = r\<lparr>headers := (headers r)(k \<mapsto> v)\<rparr>"

subsection \<open>\<^verbatim>\<open>ReactMixin\<close>\<close>

definition get_context :: "env \<Rightarrow> addr \<Rightarrow> world \<Rightarrow> template_context" where
  "get_context e request w =
     [''is_demo'' \<mapsto> VBool (startswith (path (store w request)) ''/sentry/earth/''),
      ''request'' \<mapsto> VRef request,
      ''CSRF_COOKIE_NAME'' \<mapsto> VStr (CSRF_COOKIE_NAME e)]"

definition handle_react :: "env \<Rightarrow> addr \<Rightarrow> world \<Rightarrow> (error + response) \<times> world" where
  "handle_react e request w =
     (let context = get_context e request w in
      case get_csrf_token e request w of
        (Inl x, w1) \<Rightarrow> (Inl x, w1)
      | (Inr _, w1) \<Rightarrow>
          (case render_to_string e ''sentry/bases/react.html'' context w1 of
             (Inl x, w2) \<Rightarrow> (Inl x, w2)
           | (Inr template, w2) \<Rightarrow>
               (let response = HttpResponse template;
                    response = setitem response ''Content-Type'' ''text/html''
                in (Inr response, w2))))"

text \<open>
  The response \<^verbatim>\<open>handle_react\<close> builds from a rendered body, written as one record: status
  200, the single header \<^verbatim>\<open>Content-Type: text/html\<close>, the body as content.
\<close>

definition shell_response :: "string \<Rightarrow> response" where
  "shell_response body =
     \<lparr>status_code = 200, headers = [''Content-Type'' \<mapsto> ''text/html''], content = body\<rparr>"

subsection \<open>The four views\<close>

definition ReactPageView_handle ::
  "env \<Rightarrow> addr \<Rightarrow> organization \<Rightarrow> (string \<rightharpoonup> string) \<Rightarrow> world \<Rightarrow> (error + response) \<times> world" where
  "ReactPageView_handle e request org kwargs w =
     (let w1 =
        (case kwargs ''project_id'' of
           None \<Rightarrow> w
         | Some slug \<Rightarrow>
             if truthy (QueryDict_get (GET (store w request)) ''onboarding'')
             then (let project = filter_first (Project_objects w) org slug
                   in send project (user (store w request)) ReactPageView w)
             else w)
      in handle_react e request w1)"

definition GenericReactPageView_handle ::
  "env \<Rightarrow> addr \<Rightarrow> (string \<rightharpoonup> string) \<Rightarrow> world \<Rightarrow> (error + response) \<times> world" where
  "GenericReactPageView_handle e request kwargs w = handle_react e request w"

text \<open>The text of the demo disclaimer, the literal passed to \<^verbatim>\<open>add_message\<close>.\<close>

definition demo_disclaimer :: string where
  "demo_disclaimer = ''This is a DEMO. Data will not be written to database and you are logged in as dummy user. This is a Sentry playground with dummy/demo data! Feel free to mess around!''"

definition DemoReactPageView_handle ::
  "env \<Rightarrow> addr \<Rightarrow> organization \<Rightarrow> (string \<rightharpoonup> string) \<Rightarrow> world \<Rightarrow> (error + response) \<times> world" where
  "DemoReactPageView_handle e request org kwargs w =
     (case handle_react e request w of
        (Inl x, w1) \<Rightarrow> (Inl x, w1)
      | (Inr response, w1) \<Rightarrow> (Inr response, add_message request WARNING demo_disclaimer w1))"

definition GenericDemoReactPageView_handle ::
  "env \<Rightarrow> addr \<Rightarrow> (string \<rightharpoonup> string) \<Rightarrow> world \<Rightarrow> (error + response) \<times> world" where
  "GenericDemoReactPageView_handle e request kwargs w =
     (case handle_react e request w of
        (Inl x, w1) \<Rightarrow> (Inl x, w1)
      | (Inr response, w1) \<Rightarrow> (Inr response, w1))"

subsection \<open>Choosing the view\<close>

text \<open>
  The URL configuration chooses the class. The four classes are told apart by their base
  class: \<^verbatim>\<open>BaseView\<close> (generic), \<^verbatim>\<open>DemoBaseView\<close> (generic, demo), \<^verbatim>\<open>OrganizationView\<close>
  (bound to an organization) and \<^verbatim>\<open>DemoOrganizationView\<close> (bound to an organization, demo).
  The organization views receive the organization as an argument.
\<close>

datatype scope = Generic | GenericDemo | Organization organization | OrganizationDemo organization

fun renderShell ::
  "env \<Rightarrow> scope \<Rightarrow> addr \<Rightarrow> (string \<rightharpoonup> string) \<Rightarrow> world \<Rightarrow> (error + response) \<times> world" where
  "renderShell e Generic request kwargs w = GenericReactPageView_handle e request kwargs w"
| "renderShell e GenericDemo request kwargs w = GenericDemoReactPageView_handle e request kwargs w"
| "renderShell e (Organization org) request kwargs w = ReactPageView_handle e request org kwargs w"
| "renderShell e (OrganizationDemo org) request kwargs w = DemoReactPageView_handle e request org kwargs w"

subsection \<open>Reading the call log\<close>

text \<open>The signals sent, the contexts rendered and the messages added, in order.\<close>

fun signals_sent :: "call list \<Rightarrow> signal list" where
  "signals_sent [] = []"
| "signals_sent (Send s # cs) = s # signals_sent cs"
| "signals_sent (_ # cs) = signals_sent cs"

fun contexts_rendered :: "call list \<Rightarrow> template_context list" where
  "contexts_rendered [] = []"
| "contexts_rendered (Render_to_string _ ctx # cs) = ctx # contexts_rendered cs"
| "contexts_rendered (_ # cs) = contexts_rendered cs"

fun messages_added :: "call list \<Rightarrow> (addr \<times> message) list" where
  "messages_added [] = []"
| "messages_added (Add_message a m # cs) = (a, m) # messages_added cs"
| "messages_added (_ # cs) = messages_added cs"

subsection \<open>A concrete world\<close>

text \<open>
  A token service that marks the cookie as used, one that raises, a template engine that
  returns a fixed page, one that raises; two projects; requests with different paths and
  query strings.
\<close>

definition csrf_ok :: "(string \<times> string) list \<Rightarrow> (error + string) \<times> (string \<times> string) list" where
  "csrf_ok m = (Inr ''token'', (''CSRF_COOKIE_USED'', ''True'') # m)"

definition csrf_raises :: "(string \<times> string) list \<Rightarrow> (error + string) \<times> (string \<times> string) list" where
  "csrf_raises m = (Inl (Raised ''OSError''), m)"

definition engine_ok :: "string \<Rightarrow> template_context \<Rightarrow> (addr \<Rightarrow> request) \<Rightarrow> error + string" where
  "engine_ok name ctx st = Inr ''<html></html>''"

definition engine_raises :: "string \<Rightarrow> template_context \<Rightarrow> (addr \<Rightarrow> request) \<Rightarrow> error + string" where
  "engine_raises name ctx st = Inl (Raised ''TemplateDoesNotExist'')"

definition env_ok :: env where
  "env_ok = \<lparr>CSRF_COOKIE_NAME = ''sc'', csrf_service = csrf_ok, template_engine = engine_ok\<rparr>"

definition env_no_template :: env where
  "env_no_template =
     \<lparr>CSRF_COOKIE_NAME = ''sc'', csrf_service = csrf_ok, template_engine = engine_raises\<rparr>"

definition env_no_token :: env where
  "env_no_token =
     \<lparr>CSRF_COOKIE_NAME = ''sc'', csrf_service = csrf_raises, template_engine = engine_ok\<rparr>"

definition project_earth :: project where
  "project_earth = \<lparr>project_pk = 1, project_organization = 7, project_slug = ''earth''\<rparr>"

definition project_mars :: project where
  "project_mars = \<lparr>project_pk = 2, project_organization = 8, project_slug = ''mars''\<rparr>"

definition request_of :: "string \<Rightarrow> (string \<times> string) list \<Rightarrow> request" where
  "request_of p q = \<lparr>path = p, GET = q, user = ''alice'', META = [], messages = []\<rparr>"

definition world_of :: "request \<Rightarrow> world" where
  "world_of r = \<lparr>store = (\<lambda>_. r), Project_objects = [project_earth, project_mars], calls = []\<rparr>"

lemmas example_defs =
  env_ok_def env_no_template_def env_no_token_def csrf_ok_def csrf_raises_def engine_ok_def
  engine_raises_def project_earth_def project_mars_def request_of_def world_of_def

lemmas view_defs =
  ReactPageView_handle_def GenericReactPageView_handle_def DemoReactPageView_handle_def
  GenericDemoReactPageView_handle_def handle_react_def get_csrf_token_def render_to_string_def
  send_def add_message_def HttpResponse_def setitem_def QueryDict_get_def truthy_def
  filter_first_def get_context_def Let_def

section \<open>Properties of the library operations\<close>

lemma startswith_iff: "startswith s p \<longleftrightarrow> (\<exists>rest. s = p @ rest)"
  unfolding startswith_def
  by (metis append_eq_conv_conj append_take_drop_id)

lemma shell_response_eq:
  "setitem (HttpResponse body) ''Content-Type'' ''text/html'' = shell_response body"
  by (simp add: setitem_def HttpResponse_def shell_response_def)

lemma signals_sent_append: "signals_sent (xs @ ys) = signals_sent xs @ signals_sent ys"
  by (induction xs rule: signals_sent.induct) simp_all

lemma contexts_rendered_append:
  "contexts_rendered (xs @ ys) = contexts_rendered xs @ contexts_rendered ys"
  by (induction xs rule: contexts_rendered.induct) simp_all

lemma messages_added_append: "messages_added (xs @ ys) = messages_added xs @ messages_added ys"
  by (induction xs rule: messages_added.induct) simp_all

lemma contexts_rendered_Send: "contexts_rendered (map Send sigs) = []"
  by (induction sigs) simp_all

lemma contexts_rendered_Add_message: "contexts_rendered (map (Add_message a) msgs) = []"
  by (induction msgs) simp_all



lemma QueryDict_get_values:
  "QueryDict_get q k =
     (let vs = map snd (filter (\<lambda>kv. fst kv = k) q)
      in if vs = [] then None else Some (last vs))"
  by (simp add: QueryDict_get_def Let_def last_map split: list.splits)

lemma QueryDict_get_absent:
  assumes "k \<notin> fst ` set q"
  shows "QueryDict_get q k = None"
proof -
  have "filter (\<lambda>kv. fst kv = k) q = []"
    using assms by (force simp: filter_empty_conv)
  then show ?thesis by (simp add: QueryDict_get_def)
qed

section \<open>What \<^verbatim>\<open>handle_react\<close> does\<close>

text \<open>The two ways the token service can end, and the world each leaves.\<close>

lemma handle_react_token_raises:
  assumes "csrf_service e (META (store w a)) = (Inl x, m)"
  shows "handle_react e a w =
    (Inl x, w\<lparr>store := (store w)(a := (store w a)\<lparr>META := m\<rparr>),
              calls := calls w @ [Get_csrf_token a]\<rparr>)"
  using assms by (simp add: handle_react_def get_csrf_token_def Let_def)

lemma handle_react_token_returns:
  assumes "csrf_service e (META (store w a)) = (Inr t, m)"
  shows "handle_react e a w =
    (map_sum id shell_response
       (template_engine e ''sentry/bases/react.html'' (get_context e a w)
          ((store w)(a := (store w a)\<lparr>META := m\<rparr>))),
     w\<lparr>store := (store w)(a := (store w a)\<lparr>META := m\<rparr>),
       calls := calls w @ [Get_csrf_token a,
                  Render_to_string ''sentry/bases/react.html'' (get_context e a w)]\<rparr>)"
  using assms
  by (simp add: handle_react_def get_csrf_token_def render_to_string_def HttpResponse_def
      setitem_def shell_response_def Let_def split: sum.splits)

lemma handle_react_shape:
  obtains res cs where
    "handle_react e a w =
       (res, w\<lparr>store := (store w)(a := (store w a)\<lparr>META := snd (csrf_service e (META (store w a)))\<rparr>),
                calls := calls w @ cs\<rparr>)"
proof (cases "csrf_service e (META (store w a))")
  case (Pair r m)
  show ?thesis
  proof (cases r)
    case (Inl x)
    with Pair that show ?thesis by (simp add: handle_react_token_raises)
  next
    case (Inr t)
    with Pair that show ?thesis by (simp add: handle_react_token_returns)
  qed
qed

lemma handle_react_calls:
  "calls (snd (handle_react e a w)) =
     calls w @ Get_csrf_token a #
       (case fst (csrf_service e (META (store w a))) of
          Inl _ \<Rightarrow> []
        | Inr _ \<Rightarrow> [Render_to_string ''sentry/bases/react.html'' (get_context e a w)])"
proof (cases "csrf_service e (META (store w a))")
  case (Pair res m)
  then show ?thesis
    by (cases res) (simp_all add: handle_react_token_raises handle_react_token_returns)
qed

lemma handle_react_fst:
  "fst (handle_react e a w) =
     (case csrf_service e (META (store w a)) of
        (Inl x, _) \<Rightarrow> Inl x
      | (Inr _, m) \<Rightarrow>
          map_sum id shell_response
            (template_engine e ''sentry/bases/react.html'' (get_context e a w)
               ((store w)(a := (store w a)\<lparr>META := m\<rparr>))))"
proof (cases "csrf_service e (META (store w a))")
  case (Pair res m)
  then show ?thesis
    by (cases res) (simp_all add: handle_react_token_raises handle_react_token_returns)
qed

lemma handle_react_signals:
  "signals_sent (calls (snd (handle_react e a w))) = signals_sent (calls w)"
  by (simp add: handle_react_calls signals_sent_append split: sum.splits)

lemma handle_react_messages_added:
  "messages_added (calls (snd (handle_react e a w))) = messages_added (calls w)"
  by (simp add: handle_react_calls messages_added_append split: sum.splits)

text \<open>A signal sent before \<^verbatim>\<open>handle_react\<close> changes its call log and nothing else.\<close>

lemma handle_react_send:
  "handle_react e a (send p u v w) =
     (fst (handle_react e a w),
      (snd (handle_react e a w))\<lparr>calls :=
         calls w @ Send \<lparr>signal_project = p, signal_user = u, signal_sender = v\<rparr> #
         drop (length (calls w)) (calls (snd (handle_react e a w)))\<rparr>)"
proof (cases "csrf_service e (META (store w a))")
  case (Pair res m)
  show ?thesis
  proof (cases res)
    case (Inl x)
    with Pair show ?thesis
      by (simp add: handle_react_def get_csrf_token_def send_def get_context_def Let_def)
  next
    case (Inr t)
    with Pair show ?thesis
      by (simp add: handle_react_def get_csrf_token_def send_def get_context_def Let_def
          render_to_string_def split: sum.splits)
  qed
qed

section \<open>What the four views add\<close>

text \<open>
  The world a view leaves is the world it found with: the request's \<^verbatim>\<open>META\<close> as the token
  service left it; at most one message more in the request's queue; and in the call log at
  most one signal, then the calls of \<^verbatim>\<open>handle_react\<close>, then at most one \<^verbatim>\<open>add_message\<close>.
  Its result is the result of \<^verbatim>\<open>handle_react\<close>.
\<close>

lemma renderShell_shape:
  "\<exists>sigs msgs. length sigs \<le> 1 \<and> length msgs \<le> 1 \<and>
     renderShell e sc a kw w =
       (fst (handle_react e a w),
        w\<lparr>store := (store w)(a := (store w a)
               \<lparr>META := snd (csrf_service e (META (store w a))),
                messages := messages (store w a) @ msgs\<rparr>),
          calls := calls w @ map Send sigs
                   @ drop (length (calls w)) (calls (snd (handle_react e a w)))
                   @ map (Add_message a) msgs\<rparr>)"
  (is "\<exists>sigs msgs. ?P sigs msgs")
proof -
  obtain res cs where hr:
    "handle_react e a w =
       (res, w\<lparr>store := (store w)(a := (store w a)\<lparr>META := snd (csrf_service e (META (store w a)))\<rparr>),
                calls := calls w @ cs\<rparr>)"
    by (rule handle_react_shape)
  show ?thesis
  proof (cases sc)
    case Generic
    with hr have "?P [] []"
      by (simp add: GenericReactPageView_handle_def)
    then show ?thesis by blast
  next
    case GenericDemo
    with hr have "?P [] []"
      by (simp add: GenericDemoReactPageView_handle_def split: sum.splits)
    then show ?thesis by blast
  next
    case (Organization org)
    show ?thesis
    proof (cases "kw ''project_id''")
      case None
      with hr Organization have "?P [] []"
        by (simp add: ReactPageView_handle_def)
      then show ?thesis by blast
    next
      case (Some slug)
      show ?thesis
      proof (cases "truthy (QueryDict_get (GET (store w a)) ''onboarding'')")
        case False
        with hr Organization Some have "?P [] []"
          by (simp add: ReactPageView_handle_def)
        then show ?thesis by blast
      next
        case True
        with hr Organization Some
        have "?P [\<lparr>signal_project = filter_first (Project_objects w) org slug,
                  signal_user = user (store w a), signal_sender = ReactPageView\<rparr>] []"
          by (simp add: ReactPageView_handle_def handle_react_send)
        then show ?thesis by blast
      qed
    qed
  next
    case (OrganizationDemo org)
    show ?thesis
    proof (cases res)
      case (Inl x)
      with hr OrganizationDemo have "?P [] []"
        by (simp add: DemoReactPageView_handle_def)
      then show ?thesis by blast
    next
      case (Inr resp)
      with hr OrganizationDemo
      have "?P [] [\<lparr>message_level = WARNING, message_text = demo_disclaimer\<rparr>]"
        by (simp add: DemoReactPageView_handle_def add_message_def Let_def)
      then show ?thesis by blast
    qed
  qed
qed

lemma renderShell_fst: "fst (renderShell e sc a kw w) = fst (handle_react e a w)"
  using renderShell_shape [of e sc a kw w] by auto

lemma ReactPageView_handle_signals:
  "signals_sent (calls (snd (ReactPageView_handle e a org kw w))) =
     signals_sent (calls w) @
       (case kw ''project_id'' of
          None \<Rightarrow> []
        | Some slug \<Rightarrow>
            if truthy (QueryDict_get (GET (store w a)) ''onboarding'')
            then [\<lparr>signal_project = filter_first (Project_objects w) org slug,
                   signal_user = user (store w a), signal_sender = ReactPageView\<rparr>]
            else [])"
  by (simp add: ReactPageView_handle_def handle_react_signals Let_def send_def
      signals_sent_append split: option.splits)

section \<open>The claims\<close>

subsection \<open>C1: the event on a lookup miss\<close>




subsection \<open>C2: the demo disclaimer\<close>

text \<open>
  C2 as the specification states it: every call with scope GenericDemo or OrganizationDemo
  enqueues exactly one warning with the disclaimer text. \<^verbatim>\<open>DemoReactPageView.handle\<close> adds
  the message after \<^verbatim>\<open>handle_react\<close> has returned, and an exception of a collaborator leaves
  the method before that: here the scope is OrganizationDemo, the template engine raises,
  and the queue stays empty.
\<close>

theorem demo_disclaimer_not_enqueued:
  "fst (renderShell env_no_template (OrganizationDemo 7) 0 Map.empty
         (world_of (request_of ''/sentry/earth/'' []))) = Inl (Raised ''TemplateDoesNotExist'')
   \<and> messages (store (snd (renderShell env_no_template (OrganizationDemo 7) 0 Map.empty
         (world_of (request_of ''/sentry/earth/'' [])))) 0) = []
   \<and> messages_added (calls (snd (renderShell env_no_template (OrganizationDemo 7) 0 Map.empty
         (world_of (request_of ''/sentry/earth/'' []))))) = []"
  by (simp add: view_defs example_defs)

text \<open>
  C2, amended: a call of \<^verbatim>\<open>DemoReactPageView.handle\<close> (scope OrganizationDemo) that returns a
  response enqueues exactly one message on the request, of level \<^verbatim>\<open>WARNING\<close> and with the
  disclaimer text, by one call of \<^verbatim>\<open>add_message\<close>; a call in which a collaborator raises
  enqueues none. Calls with scope Generic or Organization enqueue no message.

  The amended claim says nothing about the scope GenericDemo.
  \<^verbatim>\<open>GenericDemoReactPageView.handle\<close> has the body of \<^verbatim>\<open>DemoReactPageView.handle\<close>, the local
  \<^verbatim>\<open>response\<close> included, without the call of \<^verbatim>\<open>add_message\<close> between its two lines; that it
  enqueues nothing is what the code does, and is not taken here as what it is meant to do.
\<close>

theorem demo_disclaimer_enqueued:
  "(case renderShell e (OrganizationDemo org) a kw w of
      (Inr resp, w') \<Rightarrow>
        messages (store w' a) =
          messages (store w a) @ [\<lparr>message_level = WARNING, message_text = demo_disclaimer\<rparr>]
        \<and> messages_added (calls w') =
          messages_added (calls w)
            @ [(a, \<lparr>message_level = WARNING, message_text = demo_disclaimer\<rparr>)]
    | (Inl x, w') \<Rightarrow>
        messages (store w' a) = messages (store w a)
        \<and> messages_added (calls w') = messages_added (calls w))
   \<and> messages (store (snd (renderShell e Generic a kw w)) a) = messages (store w a)
   \<and> messages_added (calls (snd (renderShell e Generic a kw w))) = messages_added (calls w)
   \<and> messages (store (snd (renderShell e (Organization org) a kw w)) a) = messages (store w a)
   \<and> messages_added (calls (snd (renderShell e (Organization org) a kw w)))
       = messages_added (calls w)"
proof -
  obtain res cs where hr:
    "handle_react e a w =
       (res, w\<lparr>store := (store w)(a := (store w a)\<lparr>META := snd (csrf_service e (META (store w a)))\<rparr>),
                calls := calls w @ cs\<rparr>)"
    by (rule handle_react_shape)
  have cs: "messages_added cs = []"
    using handle_react_messages_added [of e a w] hr by (simp add: messages_added_append)
  have demo: "case renderShell e (OrganizationDemo org) a kw w of
      (Inr resp, w') \<Rightarrow>
        messages (store w' a) =
          messages (store w a) @ [\<lparr>message_level = WARNING, message_text = demo_disclaimer\<rparr>]
        \<and> messages_added (calls w') =
          messages_added (calls w)
            @ [(a, \<lparr>message_level = WARNING, message_text = demo_disclaimer\<rparr>)]
    | (Inl x, w') \<Rightarrow>
        messages (store w' a) = messages (store w a)
        \<and> messages_added (calls w') = messages_added (calls w)"
    using hr cs
    by (cases res)
       (simp_all add: DemoReactPageView_handle_def add_message_def Let_def messages_added_append)
  have generic: "messages (store (snd (handle_react e a w)) a) = messages (store w a)"
    using hr by simp
  have organization:
    "messages (store (snd (ReactPageView_handle e a org kw w)) a) = messages (store w a)
     \<and> messages_added (calls (snd (ReactPageView_handle e a org kw w)))
         = messages_added (calls w)"
    using hr cs
    by (simp add: ReactPageView_handle_def handle_react_send messages_added_append
        split: option.splits)
  show ?thesis
    using demo generic organization
    by (simp add: GenericReactPageView_handle_def handle_react_messages_added)
qed

text \<open>
  The amended C2 at a demo request that is rendered: the queue, empty before, holds the
  disclaimer after.
\<close>

theorem demo_disclaimer_enqueued_witness:
  "fst (renderShell env_ok (OrganizationDemo 7) 0 Map.empty
         (world_of (request_of ''/sentry/earth/'' []))) = Inr (shell_response ''<html></html>'')
   \<and> messages (store (snd (renderShell env_ok (OrganizationDemo 7) 0 Map.empty
         (world_of (request_of ''/sentry/earth/'' [])))) 0)
       = [\<lparr>message_level = 30, message_text = demo_disclaimer\<rparr>]"
proof -
  let ?w = "world_of (request_of ''/sentry/earth/'' [])"
  have r: "fst (renderShell env_ok (OrganizationDemo 7) 0 Map.empty ?w)
             = Inr (shell_response ''<html></html>'')"
    by (simp add: view_defs example_defs shell_response_def)
  then obtain w' where
    "renderShell env_ok (OrganizationDemo 7) 0 Map.empty ?w
       = (Inr (shell_response ''<html></html>''), w')"
    by (cases "renderShell env_ok (OrganizationDemo 7) 0 Map.empty ?w") simp
  then have "messages (store (snd (renderShell env_ok (OrganizationDemo 7) 0 Map.empty ?w)) 0)
       = messages (store ?w 0) @ [\<lparr>message_level = WARNING, message_text = demo_disclaimer\<rparr>]"
    using demo_disclaimer_enqueued
        [where e = env_ok and org = 7 and a = 0 and kw = Map.empty and w = ?w]
    by simp
  then show ?thesis
    using r by (simp add: example_defs WARNING_def)
qed

subsection \<open>C3: \<^verbatim>\<open>is_demo\<close> follows the path\<close>

text \<open>
  C3: the context built by \<^verbatim>\<open>get_context\<close> has \<^verbatim>\<open>is_demo\<close> true exactly when the request's
  path starts with \<^verbatim>\<open>/sentry/earth/\<close>, whichever of the four views handles the request: under
  every scope, the context handed to the template engine (one, when the token service
  returns; none, when it raises) carries that boolean.
\<close>

theorem is_demo_from_path:
  "get_context e a w ''is_demo'' =
       Some (VBool (\<exists>rest. path (store w a) = ''/sentry/earth/'' @ rest))
   \<and> map (\<lambda>ctx. ctx ''is_demo'') (contexts_rendered (calls (snd (renderShell e sc a kw w)))) =
       map (\<lambda>ctx. ctx ''is_demo'') (contexts_rendered (calls w)) @
         (case fst (csrf_service e (META (store w a))) of
            Inl _ \<Rightarrow> []
          | Inr _ \<Rightarrow> [Some (VBool (\<exists>rest. path (store w a) = ''/sentry/earth/'' @ rest))])"
proof -
  have ctx: "get_context e a w ''is_demo'' =
       Some (VBool (\<exists>rest. path (store w a) = ''/sentry/earth/'' @ rest))"
    by (simp add: get_context_def startswith_iff)
  obtain sigs msgs where
    "calls (snd (renderShell e sc a kw w)) =
       calls w @ map Send sigs @ drop (length (calls w)) (calls (snd (handle_react e a w)))
         @ map (Add_message a) msgs"
    using renderShell_shape [of e sc a kw w] by auto
  then show ?thesis
    using ctx
    by (simp add: contexts_rendered_append contexts_rendered_Send
        contexts_rendered_Add_message handle_react_calls split: sum.splits)
qed

text \<open>
  C3 at two requests handled by the demo view of an organization: one under the demo
  prefix, one that only shares its first characters with it.
\<close>

theorem is_demo_from_path_witness:
  "map (\<lambda>ctx. ctx ''is_demo'') (contexts_rendered (calls (snd
      (renderShell env_ok (OrganizationDemo 7) 0 Map.empty
         (world_of (request_of ''/sentry/earth/issues/'' []))))))
     = [Some (VBool True)]
   \<and> map (\<lambda>ctx. ctx ''is_demo'') (contexts_rendered (calls (snd
      (renderShell env_ok (OrganizationDemo 7) 0 Map.empty
         (world_of (request_of ''/sentry/ear'' []))))))
     = [Some (VBool False)]"
  using
    is_demo_from_path [where e = env_ok and sc = "OrganizationDemo 7" and a = 0
      and kw = Map.empty and w = "world_of (request_of ''/sentry/earth/issues/'' [])"]
    is_demo_from_path [where e = env_ok and sc = "OrganizationDemo 7" and a = 0
      and kw = Map.empty and w = "world_of (request_of ''/sentry/ear'' [])"]
  by (simp add: example_defs)

subsection \<open>C4: the onboarding parameter\<close>

text \<open>
  C4 as the specification states it: the onboarding parameter is a presence-only flag, so
  with a project slug the lookup and the event happen whenever the parameter is present,
  also with an empty value. The code tests the truth of \<^verbatim>\<open>request.GET.get('onboarding')\<close>,
  and the empty string is false: for \<^verbatim>\<open>?onboarding=\<close> and the slug of an existing project
  no event is sent.
\<close>

theorem onboarding_empty_value_skipped:
  "''onboarding'' \<in> fst ` set (GET (store (world_of (request_of ''/org/'' [(''onboarding'', '''')])) 0))
   \<and> filter_first (Project_objects (world_of (request_of ''/org/'' [(''onboarding'', '''')])))
        7 ''earth'' = Some project_earth
   \<and> signals_sent (calls (snd (ReactPageView_handle env_ok 0 7 [''project_id'' \<mapsto> ''earth'']
        (world_of (request_of ''/org/'' [(''onboarding'', '''')]))))) = []"
  by (simp add: view_defs example_defs)

text \<open>
  C4, amended: for \<^verbatim>\<open>ReactPageView.handle\<close> the onboarding parameter is tested for truth, not
  for presence. The lookup and the event happen exactly when a project slug is supplied
  and the last value given for \<^verbatim>\<open>onboarding\<close> in the query string is not empty; when the
  parameter is absent, or its last value is empty, or no slug is supplied, they are skipped.
\<close>

theorem onboarding_tested_for_truth:
  "length (signals_sent (calls (snd (ReactPageView_handle e a org kw w)))) =
     length (signals_sent (calls w)) +
       (let vs = map snd (filter (\<lambda>kv. fst kv = ''onboarding'') (GET (store w a)))
        in if kw ''project_id'' \<noteq> None \<and> vs \<noteq> [] \<and> last vs \<noteq> [] then 1 else 0)
   \<and> (''onboarding'' \<notin> fst ` set (GET (store w a)) \<longrightarrow>
        signals_sent (calls (snd (ReactPageView_handle e a org kw w))) = signals_sent (calls w))"
proof -
  have "truthy (QueryDict_get (GET (store w a)) ''onboarding'') \<longleftrightarrow>
          (let vs = map snd (filter (\<lambda>kv. fst kv = ''onboarding'') (GET (store w a)))
           in vs \<noteq> [] \<and> last vs \<noteq> [])"
    by (simp add: QueryDict_get_values truthy_def Let_def)
  then have "length (signals_sent (calls (snd (ReactPageView_handle e a org kw w)))) =
     length (signals_sent (calls w)) +
       (let vs = map snd (filter (\<lambda>kv. fst kv = ''onboarding'') (GET (store w a)))
        in if kw ''project_id'' \<noteq> None \<and> vs \<noteq> [] \<and> last vs \<noteq> [] then 1 else 0)"
    by (simp add: ReactPageView_handle_signals Let_def split: option.splits)
  moreover have "signals_sent (calls (snd (ReactPageView_handle e a org kw w)))
      = signals_sent (calls w)"
    if "''onboarding'' \<notin> fst ` set (GET (store w a))"
    using QueryDict_get_absent [OF that]
    by (simp add: ReactPageView_handle_signals truthy_def split: option.splits)
  ultimately show ?thesis by blast
qed

text \<open>
  The amended C4 at \<^verbatim>\<open>?onboarding=&onboarding=1\<close>, where the last value is not empty and one
  event is sent, and at a request with no query string, where none is.
\<close>

theorem onboarding_tested_for_truth_witness:
  "length (signals_sent (calls (snd (ReactPageView_handle env_ok 0 7 [''project_id'' \<mapsto> ''earth'']
      (world_of (request_of ''/org/'' [(''onboarding'', ''''), (''onboarding'', ''1'')])))))) = 1
   \<and> ''onboarding'' \<notin> fst ` set (GET (store (world_of (request_of ''/org/'' [])) 0))
   \<and> signals_sent (calls (snd (ReactPageView_handle env_ok 0 7 [''project_id'' \<mapsto> ''earth'']
        (world_of (request_of ''/org/'' []))))) = []"
proof -
  have h: "''onboarding'' \<notin> fst ` set (GET (store (world_of (request_of ''/org/'' [])) 0))"
    by (simp add: example_defs)
  show ?thesis
    using h
      onboarding_tested_for_truth [where e = env_ok and a = 0 and org = 7
        and kw = "[''project_id'' \<mapsto> ''earth'']"
        and w = "world_of (request_of ''/org/'' [(''onboarding'', ''''), (''onboarding'', ''1'')])"]
      onboarding_tested_for_truth [where e = env_ok and a = 0 and org = 7
        and kw = "[''project_id'' \<mapsto> ''earth'']"
        and w = "world_of (request_of ''/org/'' [])"]
    by (simp add: example_defs)
qed

subsection \<open>C5: the response\<close>

text \<open>
  C5: under every scope, when the token service returns and the template engine returns
  the rendered shell, the view returns a response with status 200, the header
  \<^verbatim>\<open>Content-Type\<close> equal to \<^verbatim>\<open>text/html\<close>, and the rendered string as its body.
\<close>

theorem renderShell_ok:
  assumes "csrf_service e (META (store w a)) = (Inr t, m)"
    and "template_engine e ''sentry/bases/react.html'' (get_context e a w)
           ((store w)(a := (store w a)\<lparr>META := m\<rparr>)) = Inr body"
  shows "\<exists>resp. fst (renderShell e sc a kw w) = Inr resp
           \<and> status_code resp = 200
           \<and> headers resp ''Content-Type'' = Some ''text/html''
           \<and> content resp = body"
proof -
  have "fst (handle_react e a w) = Inr (shell_response body)"
    using assms by (simp add: handle_react_token_returns)
  then show ?thesis by (simp add: renderShell_fst shell_response_def)
qed

text \<open>C5 at a demo request of an organization, with collaborators that return.\<close>

theorem renderShell_ok_witness:
  "csrf_service env_ok (META (store (world_of (request_of ''/sentry/earth/'' [])) 0))
     = (Inr ''token'', [(''CSRF_COOKIE_USED'', ''True'')])
   \<and> template_engine env_ok ''sentry/bases/react.html''
        (get_context env_ok 0 (world_of (request_of ''/sentry/earth/'' [])))
        ((store (world_of (request_of ''/sentry/earth/'' [])))
           (0 := (store (world_of (request_of ''/sentry/earth/'' [])) 0)
                   \<lparr>META := [(''CSRF_COOKIE_USED'', ''True'')]\<rparr>)) = Inr ''<html></html>''
   \<and> (\<exists>resp. fst (renderShell env_ok (OrganizationDemo 7) 0 Map.empty
                    (world_of (request_of ''/sentry/earth/'' []))) = Inr resp
           \<and> status_code resp = 200
           \<and> headers resp ''Content-Type'' = Some ''text/html''
           \<and> content resp = ''<html></html>'')"
proof -
  let ?w = "world_of (request_of ''/sentry/earth/'' [])"
  have h1: "csrf_service env_ok (META (store ?w 0))
              = (Inr ''token'', [(''CSRF_COOKIE_USED'', ''True'')])"
    by (simp add: example_defs)
  have h2: "template_engine env_ok ''sentry/bases/react.html'' (get_context env_ok 0 ?w)
              ((store ?w)(0 := (store ?w 0)\<lparr>META := [(''CSRF_COOKIE_USED'', ''True'')]\<rparr>))
              = Inr ''<html></html>''"
    by (simp add: example_defs)
  show ?thesis
    using h1 h2 renderShell_ok [OF h1 h2, of "OrganizationDemo 7" Map.empty] by blast
qed

subsection \<open>C6: the token before the template\<close>

text \<open>
  C6: in every execution of \<^verbatim>\<open>handle_react\<close> the call of the token service comes first. The
  calls it adds to the log are the token call alone, when the service raises, and the
  token call followed by the rendering, when it returns; and the template engine runs on
  the store as the token service left it, with the request's \<^verbatim>\<open>META\<close> already written.
\<close>

theorem token_before_render:
  "calls (snd (handle_react e a w)) =
     calls w @ Get_csrf_token a #
       (case fst (csrf_service e (META (store w a))) of
          Inl _ \<Rightarrow> []
        | Inr _ \<Rightarrow> [Render_to_string ''sentry/bases/react.html'' (get_context e a w)])
   \<and> fst (handle_react e a w) =
       (case csrf_service e (META (store w a)) of
          (Inl x, _) \<Rightarrow> Inl x
        | (Inr _, m) \<Rightarrow>
            map_sum id shell_response
              (template_engine e ''sentry/bases/react.html'' (get_context e a w)
                 ((store w)(a := (store w a)\<lparr>META := m\<rparr>))))"
  using handle_react_calls [of e a w] handle_react_fst [of e a w] by simp

text \<open>
  C6 at a request whose token service returns (two calls, in this order) and at one whose
  token service raises (the template is never rendered).
\<close>

theorem token_before_render_witness:
  "calls (snd (handle_react env_ok 0 (world_of (request_of ''/org/'' [])))) =
     [Get_csrf_token 0,
      Render_to_string ''sentry/bases/react.html''
        (get_context env_ok 0 (world_of (request_of ''/org/'' [])))]
   \<and> calls (snd (handle_react env_no_token 0 (world_of (request_of ''/org/'' [])))) =
     [Get_csrf_token 0]"
  using
    token_before_render [where e = env_ok and a = 0 and w = "world_of (request_of ''/org/'' [])"]
    token_before_render [where e = env_no_token and a = 0
      and w = "world_of (request_of ''/org/'' [])"]
  by (simp add: example_defs get_context_def)

subsection \<open>C7: what a view changes\<close>

text \<open>
  C7: under every scope the view returns what \<^verbatim>\<open>handle_react\<close> returns for the request,
  unchanged, and the world it leaves differs from the world it found in nothing but: the
  request's \<^verbatim>\<open>META\<close>, as the token service left it; at most one message appended to the
  request's queue; and, in the call log, at most one signal sent before the calls of
  \<^verbatim>\<open>handle_react\<close> and at most one \<^verbatim>\<open>add_message\<close> after them. The project table, the other
  requests and the request's path, query and user are as they were.
\<close>

theorem renderShell_frame:
  "\<exists>sigs msgs. length sigs \<le> 1 \<and> length msgs \<le> 1 \<and>
     renderShell e sc a kw w =
       (fst (handle_react e a w),
        w\<lparr>store := (store w)(a := (store w a)
               \<lparr>META := snd (csrf_service e (META (store w a))),
                messages := messages (store w a) @ msgs\<rparr>),
          calls := calls w @ map Send sigs
                   @ drop (length (calls w)) (calls (snd (handle_react e a w)))
                   @ map (Add_message a) msgs\<rparr>)"
  by (rule renderShell_shape)

subsection \<open>C8: the keys of the context\<close>

text \<open>
  C8: the context built by \<^verbatim>\<open>get_context\<close> has exactly three keys: \<^verbatim>\<open>is_demo\<close>, a boolean
  that says whether the request's path starts with the demo prefix; \<^verbatim>\<open>request\<close>, the
  request that was passed; and \<^verbatim>\<open>CSRF_COOKIE_NAME\<close>, the configured name of the anti-forgery
  cookie.
\<close>

theorem get_context_three_keys:
  "dom (get_context e a w) = {''is_demo'', ''request'', ''CSRF_COOKIE_NAME''}
   \<and> card (dom (get_context e a w)) = 3
   \<and> get_context e a w ''is_demo'' =
       Some (VBool (\<exists>rest. path (store w a) = ''/sentry/earth/'' @ rest))
   \<and> get_context e a w ''request'' = Some (VRef a)
   \<and> get_context e a w ''CSRF_COOKIE_NAME'' = Some (VStr (CSRF_COOKIE_NAME e))"
  by (auto simp: get_context_def startswith_iff)

subsection \<open>C9: the two generic views\<close>

text \<open>
  C9: \<^verbatim>\<open>GenericDemoReactPageView.handle\<close> and \<^verbatim>\<open>GenericReactPageView.handle\<close> both do what a
  bare \<^verbatim>\<open>handle_react(request)\<close> does, and nothing else: the same result and the same world,
  for every request, keyword arguments and world.
\<close>

theorem generic_views_equal_handle_react:
  "GenericDemoReactPageView_handle e a kw w = handle_react e a w
   \<and> GenericReactPageView_handle e a kw w = handle_react e a w
   \<and> GenericDemoReactPageView_handle e a kw w = GenericReactPageView_handle e a kw w"
  by (simp add: GenericDemoReactPageView_handle_def GenericReactPageView_handle_def
      split: prod.splits sum.splits)

subsection \<open>C10: the unused organization\<close>

text \<open>
  C10: \<^verbatim>\<open>DemoReactPageView.handle\<close> does not read its organization argument: for every
  request and any two organizations the two runs return the same response and leave the
  same world, the same queued warning included.
\<close>

theorem DemoReactPageView_organization_unused:
  "DemoReactPageView_handle e a org1 kw w = DemoReactPageView_handle e a org2 kw w"
  by (simp add: DemoReactPageView_handle_def)

end
